theory Spec2Isabelle
  imports Main
begin

section \<open>Data model\<close>

text \<open>
  The three slot components of the module are React function components. Each keeps its
  state in \<open>useState\<close> cells, starts backend calls from asynchronous functions, and is
  driven by effects, \<open>setInterval\<close> timers and click handlers. The embedding keeps one
  record per component, splits every asynchronous function at its \<open>await\<close> into the part
  that runs when it is called and the part that runs when the promise settles, and passes
  the state explicitly. Times are milliseconds (\<open>Date.now()\<close>, the delay of \<open>setInterval\<close>).
  An ISO timestamp produced by \<open>toISOString\<close> is represented by the instant it denotes.
  Icons, class names and markup are presentation and are left out.
\<close>

datatype exec_status = Success | Error | Running | Waiting

text \<open>The string a status is compared with in \<open>e.status === filter\<close>.\<close>

fun status_str :: "exec_status \<Rightarrow> string" where
  "status_str Success = ''success''"
| "status_str Error = ''error''"
| "status_str Running = ''running''"
| "status_str Waiting = ''waiting''"

text \<open>
  \<open>interface Integration\<close> of the IntegrationStatus component. Its \<open>status\<close> is typed
  \<open>'healthy' | 'degraded' | 'unhealthy' | 'unknown'\<close>; at run time the cell holds whatever
  string \<open>checkHealth\<close> stored, so it is a string here.
\<close>

record Integration =
  i_id :: string
  i_name :: string
  i_status :: string
  i_latency :: "int option"

text \<open>
  \<open>interface IntegrationHealth\<close>, an entry of the answer of \<open>GET /health/integrations\<close>.
  The answer is JSON from the network and nothing checks it against the interface: the
  \<open>status\<close> of an entry may be missing and may be any string.
\<close>

record IntegrationHealth =
  h_id :: string
  h_name :: string
  h_status :: "string option"
  h_lastCheck :: string
  h_latency :: "int option"
  h_message :: "string option"

text \<open>\<open>interface ExecutionItem\<close> of the ExecutionMonitor component.\<close>

record ExecutionItem =
  e_id :: string
  e_workflowId :: string
  e_workflowName :: string
  e_status :: exec_status
  e_startedAt :: int
  e_duration :: "int option"
  e_mode :: string

text \<open>\<open>interface N8nExecution\<close>, what the executions endpoints answer.\<close>

record N8nExecution =
  x_id :: string
  x_workflowId :: string
  x_finished :: bool
  x_mode :: string
  x_startedAt :: int
  x_stoppedAt :: "int option"
  x_status :: exec_status

text \<open>The fields of \<open>interface N8nWorkflow\<close> that the components read.\<close>

record N8nWorkflow =
  w_id :: string
  w_name :: string
  w_active :: bool

text \<open>\<open>interface WorkflowSummary\<close>; \<open>lastExecution\<close> is never set by the code.\<close>

record WorkflowSummary =
  s_id :: string
  s_name :: string
  s_active :: bool
  s_relatedToEntity :: bool

text \<open>
  What the promise of \<open>api.getIntegrationsHealth()\<close> resolves with. The declared type is
  an array of entries; the body that arrives may as well be a value without a \<open>find\<close>
  method (an error object, \<open>null\<close>), or an array some of whose entries are \<open>null\<close>.
\<close>

datatype health_answer = NotAnArray | Entries "IntegrationHealth option list"

text \<open>An expression either throws a \<open>TypeError\<close> or returns a value.\<close>

datatype 'a js_result = Throws | Returns 'a

text \<open>A rejected promise: \<open>catch (err: any)\<close> reads only \<open>err.message\<close>.\<close>

record js_error =
  message :: "string option"

text \<open>\<open>m || d\<close> on a possibly missing string: \<open>undefined\<close> and \<open>''\<close> are falsy.\<close>

definition or_default :: "string option \<Rightarrow> string \<Rightarrow> string" where
  "or_default m d = (case m of None \<Rightarrow> d | Some s \<Rightarrow> if s = [] then d else s)"

text \<open>A timer made by \<open>setInterval(f, period)\<close>: it fires next at \<open>next_due\<close>.\<close>

record interval_timer =
  period :: int
  next_due :: int

text \<open>
  What a pending \<open>fetchExecutions\<close> call closed over: the \<open>filter\<close> and \<open>expanded\<close>
  values of the render that created the function.
\<close>

record fetch_closure =
  c_filter :: string
  c_expanded :: bool

text \<open>
  The state cells of \<open>IntegrationStatus\<close>, its interval and its pending calls.
  \<open>is_crashed\<close> is set once a state updater of the widget has thrown while React was
  rendering it: the widget is then removed from the page, and its cells are neither shown
  nor updated any more.
\<close>

record IntegrationStatus_state =
  integrations :: "Integration list"
  is_loading :: bool
  is_expanded :: bool
  is_interval :: "interval_timer option"
  is_inflight :: nat
  is_crashed :: bool

text \<open>The state cells of \<open>ExecutionMonitor\<close>, its interval and its pending calls.\<close>

record ExecutionMonitor_state =
  executions :: "ExecutionItem list"
  em_loading :: bool
  em_error :: "string option"
  em_filter :: string
  em_expanded :: bool
  em_autoRefresh :: bool
  em_interval :: "interval_timer option"
  em_inflight :: "fetch_closure list"

text \<open>The state cells of \<open>WorkflowStatusPanel\<close>.\<close>

record WorkflowStatusPanel_state =
  workflows :: "WorkflowSummary list"
  wp_loading :: bool
  wp_error :: "string option"

text \<open>The backend calls of \<open>useModuleApi\<close> that the three components issue.\<close>

datatype api_call =
    GetIntegrationsHealth
  | GetExecutions "string option" int
  | GetWorkflows
  | ExecuteWorkflow string string "string option"
  | RequestAnalysis string int int "string list"
  | RequestPrediction string string "string option"

text \<open>
  The page: the clock, what \<open>useAuth\<close> and \<open>useViewer\<close> report, the three components,
  and the backend calls issued so far, oldest first.
\<close>

record world =
  now :: int
  isAuthenticated :: bool
  selectedEntityId :: "string option"
  selectedEntityType :: "string option"
  integrationStatus :: IntegrationStatus_state
  executionMonitor :: ExecutionMonitor_state
  workflowPanel :: WorkflowStatusPanel_state
  calls :: "api_call list"

section \<open>IntegrationStatus: the health snapshot\<close>

text \<open>The initial value of the \<open>integrations\<close> cell: six services, all \<open>unknown\<close>.\<close>

definition integrations_init :: "Integration list" where
  "integrations_init =
     [\<lparr>i_id = ''n8n'', i_name = ''n8n'', i_status = ''unknown'', i_latency = None\<rparr>,
      \<lparr>i_id = ''sentinel'', i_name = ''NDVI'', i_status = ''unknown'', i_latency = None\<rparr>,
      \<lparr>i_id = ''intelligence'', i_name = ''AI'', i_status = ''unknown'', i_latency = None\<rparr>,
      \<lparr>i_id = ''notifications'', i_name = ''Alerts'', i_status = ''unknown'', i_latency = None\<rparr>,
      \<lparr>i_id = ''odoo'', i_name = ''ERP'', i_status = ''unknown'', i_latency = None\<rparr>,
      \<lparr>i_id = ''ros2'', i_name = ''Robots'', i_status = ''unknown'', i_latency = None\<rparr>]"

definition IntegrationStatus_init :: IntegrationStatus_state where
  "IntegrationStatus_init =
     \<lparr>integrations = integrations_init, is_loading = False, is_expanded = False,
      is_interval = None, is_inflight = 0, is_crashed = False\<rparr>"

text \<open>The delay of the health interval: \<open>setInterval(checkHealth, 60000)\<close>.\<close>

definition HEALTH_INTERVAL_MS :: int where
  "HEALTH_INTERVAL_MS = 60000"

text \<open>
  \<open>healthData.find(h => h.id === integration.id)\<close> on an array: the entries are visited
  in order up to the first match; reading \<open>h.id\<close> of a \<open>null\<close> entry throws.
\<close>

fun find_health :: "string \<Rightarrow> IntegrationHealth option list \<Rightarrow> IntegrationHealth option js_result" where
  "find_health d [] = Returns None"
| "find_health d (None # es) = Throws"
| "find_health d (Some h # es) = (if h_id h = d then Returns (Some h) else find_health d es)"

text \<open>
  The object the updater builds from what \<open>find\<close> returned:
  \<open>{...integration, status: health?.status || 'unknown', latency: health?.latency}\<close>.
  A status that is present and not empty is stored as it is.
\<close>

definition merge_health :: "IntegrationHealth option \<Rightarrow> Integration \<Rightarrow> Integration" where
  "merge_health health integration =
     integration\<lparr>
       i_status := (case health of None \<Rightarrow> ''unknown''
                    | Some h \<Rightarrow> or_default (h_status h) ''unknown''),
       i_latency := (case health of None \<Rightarrow> None | Some h \<Rightarrow> h_latency h)\<rparr>"

text \<open>\<open>prev.map(integration => ...)\<close> over an array answer: it throws as soon as one \<open>find\<close> does.\<close>

fun merge_all :: "IntegrationHealth option list \<Rightarrow> Integration list \<Rightarrow> Integration list js_result" where
  "merge_all es [] = Returns []"
| "merge_all es (integration # prev) =
     (case find_health (i_id integration) es of
        Throws \<Rightarrow> Throws
      | Returns health \<Rightarrow>
          (case merge_all es prev of
             Throws \<Rightarrow> Throws
           | Returns rest \<Rightarrow> Returns (merge_health health integration # rest)))"

text \<open>
  The updater of the \<open>try\<close> branch, \<open>prev => prev.map(...)\<close>, applied to the snapshot. On
  an answer that is no array, \<open>healthData.find\<close> throws in the first call of the callback;
  with nothing to map, the callback is never called.
\<close>

definition success_updater :: "health_answer \<Rightarrow> Integration list \<Rightarrow> Integration list js_result" where
  "success_updater answer prev =
     (case answer of
        NotAnArray \<Rightarrow> (if prev = [] then Returns [] else Throws)
      | Entries es \<Rightarrow> merge_all es prev)"

text \<open>The updater of the \<open>catch\<close> branch: \<open>prev.map(i => ({...i, status: 'unknown'}))\<close>.\<close>

definition all_unknown :: "Integration list \<Rightarrow> Integration list" where
  "all_unknown prev = map (\<lambda>i. i\<lparr>i_status := ''unknown''\<rparr>) prev"

text \<open>
  \<open>checkHealth\<close> up to its \<open>await\<close>: return at once when not authenticated, otherwise
  \<open>setLoading(true)\<close> and issue \<open>api.getIntegrationsHealth()\<close>.
\<close>

definition checkHealth_start :: "world \<Rightarrow> world" where
  "checkHealth_start w =
     (if \<not> isAuthenticated w then w
      else w\<lparr>integrationStatus := (integrationStatus w)\<lparr>
                 is_loading := True,
                 is_inflight := Suc (is_inflight (integrationStatus w))\<rparr>,
             calls := calls w @ [GetIntegrationsHealth]\<rparr>)"

text \<open>
  \<open>checkHealth\<close> after its \<open>await\<close>, for a widget that is on the page: the promise of a
  pending call rejects (\<open>Inl\<close>) or resolves with the answer (\<open>Inr\<close>). A rejection is caught
  and every status is set to \<open>unknown\<close>. On an answer, \<open>setIntegrations\<close> is handed the
  updater of the \<open>try\<close> branch; React runs it later, while rendering, and not inside the
  \<open>try\<close>: when it returns, its result is the new snapshot; when it throws, the \<open>catch\<close> does
  not see the error, the render fails and the widget is removed with its interval cleared,
  the snapshot never having been replaced. \<open>finally\<close> clears \<open>loading\<close>.
\<close>

definition checkHealth_settle :: "js_error + health_answer \<Rightarrow> world \<Rightarrow> world" where
  "checkHealth_settle outcome w =
     (let st = integrationStatus w
      in if is_inflight st = 0 then w
         else
           (case outcome of
              Inl err \<Rightarrow>
                w\<lparr>integrationStatus := st\<lparr>
                     integrations := all_unknown (integrations st),
                     is_loading := False,
                     is_inflight := is_inflight st - 1\<rparr>\<rparr>
            | Inr answer \<Rightarrow>
                (case success_updater answer (integrations st) of
                   Returns snapshot \<Rightarrow>
                     w\<lparr>integrationStatus := st\<lparr>
                          integrations := snapshot,
                          is_loading := False,
                          is_inflight := is_inflight st - 1\<rparr>\<rparr>
                 | Throws \<Rightarrow>
                     w\<lparr>integrationStatus := st\<lparr>
                          is_loading := False,
                          is_interval := None,
                          is_inflight := is_inflight st - 1,
                          is_crashed := True\<rparr>\<rparr>)))"

text \<open>
  The effect of \<open>IntegrationStatus\<close>: \<open>checkHealth()\<close>, then
  \<open>setInterval(checkHealth, 60000)\<close>. It runs on mount.
\<close>

definition health_effect :: "world \<Rightarrow> world" where
  "health_effect w =
     (let w1 = checkHealth_start w
      in w1\<lparr>integrationStatus := (integrationStatus w1)\<lparr>
                is_interval := Some \<lparr>period = HEALTH_INTERVAL_MS,
                                     next_due = now w1 + HEALTH_INTERVAL_MS\<rparr>\<rparr>\<rparr>)"

text \<open>The interval fires once it is due: it calls \<open>checkHealth\<close> and is due again a period later.\<close>

definition health_tick :: "world \<Rightarrow> world" where
  "health_tick w =
     (case is_interval (integrationStatus w) of
        None \<Rightarrow> w
      | Some tm \<Rightarrow>
          if now w < next_due tm then w
          else checkHealth_start
                 (w\<lparr>integrationStatus := (integrationStatus w)\<lparr>
                       is_interval := Some (tm\<lparr>next_due := next_due tm + period tm\<rparr>)\<rparr>\<rparr>))"

text \<open>
  The refresh button of a widget that is on the page: \<open>onClick\<close> calls \<open>checkHealth()\<close>
  and nothing else. The button is \<open>disabled={loading}\<close>, and the component renders
  nothing when not authenticated.
\<close>

definition refresh_onClick :: "world \<Rightarrow> world" where
  "refresh_onClick w = checkHealth_start w"

definition refresh_button :: "world \<Rightarrow> world" where
  "refresh_button w =
     (if \<not> isAuthenticated w \<or> is_loading (integrationStatus w) then w
      else refresh_onClick w)"

text \<open>Time passes.\<close>

definition elapse :: "int \<Rightarrow> world \<Rightarrow> world" where
  "elapse d w = (if d < 0 then w else w\<lparr>now := now w + d\<rparr>)"

section \<open>ExecutionMonitor: the executions window\<close>

definition ExecutionMonitor_init :: ExecutionMonitor_state where
  "ExecutionMonitor_init =
     \<lparr>executions = [], em_loading = False, em_error = None, em_filter = ''all'',
      em_expanded = False, em_autoRefresh = True, em_interval = None, em_inflight = []\<rparr>"

text \<open>The delay of the executions interval: \<open>setInterval(fetchExecutions, 10000)\<close>.\<close>

definition EXECUTIONS_INTERVAL_MS :: int where
  "EXECUTIONS_INTERVAL_MS = 10000"

text \<open>
  The array \<open>mockExecutions\<close> that \<open>fetchExecutions\<close> builds after the answer has
  arrived; \<open>t\<close> is \<open>Date.now()\<close> at that moment.
\<close>

definition mockExecutions :: "int \<Rightarrow> ExecutionItem list" where
  "mockExecutions t =
     [\<lparr>e_id = ''1'', e_workflowId = ''wf-1'', e_workflowName = ''NDVI Alert Pipeline'',
       e_status = Success, e_startedAt = t - 5*60*1000, e_duration = Some 3200,
       e_mode = ''trigger''\<rparr>,
      \<lparr>e_id = ''2'', e_workflowId = ''wf-2'', e_workflowName = ''Production Prediction'',
       e_status = Running, e_startedAt = t - 2*60*1000, e_duration = None,
       e_mode = ''webhook''\<rparr>,
      \<lparr>e_id = ''3'', e_workflowId = ''wf-3'', e_workflowName = ''Pest Detection'',
       e_status = Success, e_startedAt = t - 15*60*1000, e_duration = Some 8500,
       e_mode = ''cron''\<rparr>,
      \<lparr>e_id = ''4'', e_workflowId = ''wf-1'', e_workflowName = ''NDVI Alert Pipeline'',
       e_status = Error, e_startedAt = t - 30*60*1000, e_duration = Some 1200,
       e_mode = ''trigger''\<rparr>,
      \<lparr>e_id = ''5'', e_workflowId = ''wf-4'', e_workflowName = ''Risk Notifications'',
       e_status = Success, e_startedAt = t - 60*60*1000, e_duration = Some 4500,
       e_mode = ''cron''\<rparr>]"

text \<open>The predicate of \<open>mockExecutions.filter\<close>: \<open>filter === 'all' || e.status === filter\<close>.\<close>

definition matches_filter :: "string \<Rightarrow> ExecutionItem \<Rightarrow> bool" where
  "matches_filter flt e = (flt = ''all'' \<or> status_str (e_status e) = flt)"

text \<open>
  \<open>fetchExecutions\<close> up to its \<open>await\<close>: return at once when not authenticated, otherwise
  \<open>setLoading(true)\<close> and issue \<open>api.getExecutions\<close> with the \<open>status\<close> and \<open>limit\<close> of
  the current render. The pending call remembers the values it closed over.
\<close>

definition fetchExecutions_start :: "world \<Rightarrow> world" where
  "fetchExecutions_start w =
     (if \<not> isAuthenticated w then w
      else
        let em = executionMonitor w
        in w\<lparr>executionMonitor := em\<lparr>
                em_loading := True,
                em_inflight := em_inflight em @
                  [\<lparr>c_filter = em_filter em, c_expanded = em_expanded em\<rparr>]\<rparr>,
              calls := calls w @
                [GetExecutions (if em_filter em \<noteq> ''all'' then Some (em_filter em) else None)
                               (if em_expanded em then 50 else 10)]\<rparr>)"

text \<open>
  \<open>fetchExecutions\<close> after its \<open>await\<close>, for the pending call number \<open>k\<close>. On an answer
  the window becomes the mock records that match the filter the call closed over, and the
  error is cleared; the answer itself is not read. On a rejection only the error is set.
  \<open>finally\<close> clears \<open>loading\<close>.
\<close>

definition fetchExecutions_settle ::
  "nat \<Rightarrow> js_error + N8nExecution list \<Rightarrow> world \<Rightarrow> world" where
  "fetchExecutions_settle k outcome w =
     (let em = executionMonitor w
      in if length (em_inflight em) \<le> k then w
         else
           let c = em_inflight em ! k;
               rest = take k (em_inflight em) @ drop (Suc k) (em_inflight em)
           in (case outcome of
                 Inr response \<Rightarrow>
                   w\<lparr>executionMonitor := em\<lparr>
                       executions := filter (matches_filter (c_filter c)) (mockExecutions (now w)),
                       em_error := None,
                       em_loading := False,
                       em_inflight := rest\<rparr>\<rparr>
               | Inl err \<Rightarrow>
                   w\<lparr>executionMonitor := em\<lparr>
                       em_error := Some (or_default (message err) ''Failed to load executions''),
                       em_loading := False,
                       em_inflight := rest\<rparr>\<rparr>))"

text \<open>
  The effect of \<open>ExecutionMonitor\<close>, with dependencies \<open>isAuthenticated\<close>, \<open>filter\<close>,
  \<open>expanded\<close> and \<open>autoRefresh\<close>: \<open>fetchExecutions()\<close>, then a new interval when
  \<open>autoRefresh\<close> is set. The cleanup of the previous run has cleared the old interval;
  it does nothing about pending calls.
\<close>

definition feed_effect :: "world \<Rightarrow> world" where
  "feed_effect w =
     (let w1 = fetchExecutions_start w
      in w1\<lparr>executionMonitor := (executionMonitor w1)\<lparr>
                em_interval :=
                  (if em_autoRefresh (executionMonitor w1)
                   then Some \<lparr>period = EXECUTIONS_INTERVAL_MS,
                              next_due = now w1 + EXECUTIONS_INTERVAL_MS\<rparr>
                   else None)\<rparr>\<rparr>)"

definition feed_tick :: "world \<Rightarrow> world" where
  "feed_tick w =
     (case em_interval (executionMonitor w) of
        None \<Rightarrow> w
      | Some tm \<Rightarrow>
          if now w < next_due tm then w
          else fetchExecutions_start
                 (w\<lparr>executionMonitor := (executionMonitor w)\<lparr>
                       em_interval := Some (tm\<lparr>next_due := next_due tm + period tm\<rparr>)\<rparr>\<rparr>))"

text \<open>
  The controls. \<open>setFilter(e.target.value)\<close> with the value already held changes nothing;
  any change of a dependency runs the effect again.
\<close>

definition setFilter :: "string \<Rightarrow> world \<Rightarrow> world" where
  "setFilter v w =
     (if v = em_filter (executionMonitor w) then w
      else feed_effect (w\<lparr>executionMonitor := (executionMonitor w)\<lparr>em_filter := v\<rparr>\<rparr>))"

definition toggleExpanded :: "world \<Rightarrow> world" where
  "toggleExpanded w =
     feed_effect (w\<lparr>executionMonitor := (executionMonitor w)\<lparr>
                      em_expanded := \<not> em_expanded (executionMonitor w)\<rparr>\<rparr>)"

definition toggleAutoRefresh :: "world \<Rightarrow> world" where
  "toggleAutoRefresh w =
     feed_effect (w\<lparr>executionMonitor := (executionMonitor w)\<lparr>
                      em_autoRefresh := \<not> em_autoRefresh (executionMonitor w)\<rparr>\<rparr>)"

section \<open>WorkflowStatusPanel: the actions\<close>

definition WorkflowStatusPanel_init :: WorkflowStatusPanel_state where
  "WorkflowStatusPanel_init = \<lparr>workflows = [], wp_loading = False, wp_error = None\<rparr>"

text \<open>What the backend acknowledges an action with, and how a promise settles.\<close>

datatype ack = ExecutionAck N8nExecution | JobAck string

datatype settled = Rejected js_error | Resolved "ack option"

text \<open>\<open>haystack.includes(needle)\<close>.\<close>

fun startsWith :: "string \<Rightarrow> string \<Rightarrow> bool" where
  "startsWith ys [] = True"
| "startsWith [] (x # xs) = False"
| "startsWith (y # ys) (x # xs) = (x = y \<and> startsWith ys xs)"

fun includes_str :: "string \<Rightarrow> string \<Rightarrow> bool" where
  "includes_str [] needle = (needle = [])"
| "includes_str (y # ys) needle = (startsWith (y # ys) needle \<or> includes_str ys needle)"

text \<open>
  The mapping of a workflow to its summary in \<open>executeWorkflow\<close>:
  \<open>w.name.toLowerCase().includes(selectedEntityType?.toLowerCase() || '')\<close>.
  \<open>String.prototype.toLowerCase\<close> belongs to the JavaScript runtime, with its table of
  cased letters; it is the parameter \<open>toLowerCase\<close> here and in \<open>executeWorkflow\<close>.
\<close>

definition summarize ::
  "(string \<Rightarrow> string) \<Rightarrow> string option \<Rightarrow> N8nWorkflow \<Rightarrow> WorkflowSummary" where
  "summarize toLowerCase entityType wfl =
     \<lparr>s_id = w_id wfl, s_name = w_name wfl, s_active = w_active wfl,
      s_relatedToEntity =
        includes_str (toLowerCase (w_name wfl)) (or_default (map_option toLowerCase entityType) [])\<rparr>"

text \<open>\<open>!selectedEntityId\<close> is true for \<open>undefined\<close> and for the empty string.\<close>

definition entity_selected :: "world \<Rightarrow> string option" where
  "entity_selected w =
     (case selectedEntityId w of None \<Rightarrow> None | Some e \<Rightarrow> if e = [] then None else Some e)"

text \<open>
  \<open>executeWorkflow\<close> of the panel, with the outcomes of its two awaited calls. Without a
  selected entity it returns at once. It awaits \<open>api.executeWorkflow\<close>; on success it sets
  \<open>loading\<close>, awaits \<open>api.getWorkflows()\<close> and stores the summaries
  (\<open>response.workflows?.map(...) || []\<close>); any rejection is caught and only sets the
  panel's \<open>error\<close>. The function has no \<open>return\<close> value: its promise resolves with
  \<open>undefined\<close> in every case.
\<close>

definition executeWorkflow ::
  "(string \<Rightarrow> string) \<Rightarrow> string \<Rightarrow> js_error + N8nExecution
     \<Rightarrow> js_error + N8nWorkflow list option \<Rightarrow> world \<Rightarrow> world \<times> settled" where
  "executeWorkflow toLowerCase workflowId exec_outcome list_outcome w =
     (case entity_selected w of
        None \<Rightarrow> (w, Resolved None)
      | Some entityId \<Rightarrow>
          let w1 = w\<lparr>calls := calls w @
                        [ExecuteWorkflow workflowId entityId (selectedEntityType w)]\<rparr>
          in (case exec_outcome of
                Inl err \<Rightarrow>
                  (w1\<lparr>workflowPanel := (workflowPanel w1)\<lparr>
                        wp_error := Some (or_default (message err) ''Failed to execute workflow'')\<rparr>\<rparr>,
                   Resolved None)
              | Inr execution \<Rightarrow>
                  let w2 = w1\<lparr>workflowPanel := (workflowPanel w1)\<lparr>wp_loading := True\<rparr>,
                              calls := calls w1 @ [GetWorkflows]\<rparr>
                  in (case list_outcome of
                        Inl err \<Rightarrow>
                          (w2\<lparr>workflowPanel := (workflowPanel w2)\<lparr>
                                wp_error :=
                                  Some (or_default (message err) ''Failed to execute workflow'')\<rparr>\<rparr>,
                           Resolved None)
                      | Inr response \<Rightarrow>
                          (w2\<lparr>workflowPanel := (workflowPanel w2)\<lparr>
                                workflows :=
                                  (case response of
                                     None \<Rightarrow> []
                                   | Some ws \<Rightarrow> map (summarize toLowerCase (selectedEntityType w)) ws),
                                wp_loading := False\<rparr>\<rparr>,
                           Resolved None))))"

text \<open>
  The two quick-action buttons: \<open>onClick={() => api.requestAnalysis({...})}\<close> and
  \<open>onClick={() => api.requestPrediction({...})}\<close>. The handler issues the call and hands
  its promise back; it sets no state. The buttons exist only when an entity is selected.
\<close>

definition requestAnalysis_onClick :: "js_error + string \<Rightarrow> world \<Rightarrow> world \<times> settled" where
  "requestAnalysis_onClick outcome w =
     (case entity_selected w of
        None \<Rightarrow> (w, Resolved None)
      | Some entityId \<Rightarrow>
          (w\<lparr>calls := calls w @
                [RequestAnalysis entityId (now w - 30*24*60*60*1000) (now w) [''NDVI'']]\<rparr>,
           case outcome of Inl err \<Rightarrow> Rejected err | Inr jobId \<Rightarrow> Resolved (Some (JobAck jobId))))"

definition requestPrediction_onClick :: "js_error + string \<Rightarrow> world \<Rightarrow> world \<times> settled" where
  "requestPrediction_onClick outcome w =
     (case entity_selected w of
        None \<Rightarrow> (w, Resolved None)
      | Some entityId \<Rightarrow>
          (w\<lparr>calls := calls w @
                [RequestPrediction ''production'' entityId (selectedEntityType w)]\<rparr>,
           case outcome of Inl err \<Rightarrow> Rejected err | Inr jobId \<Rightarrow> Resolved (Some (JobAck jobId))))"

section \<open>Rendering guards and the page as a whole\<close>

text \<open>
  What a component renders: nothing (\<open>return null\<close>), the "Login required" card, or its
  data view.
\<close>

datatype 'a view = RenderNull | LoginRequired | DataView 'a

definition render_IntegrationStatus :: "world \<Rightarrow> Integration list view" where
  "render_IntegrationStatus w =
     (if \<not> isAuthenticated w \<or> is_crashed (integrationStatus w) then RenderNull
      else DataView (integrations (integrationStatus w)))"

definition render_ExecutionMonitor :: "world \<Rightarrow> ExecutionItem list view" where
  "render_ExecutionMonitor w =
     (if \<not> isAuthenticated w then LoginRequired
      else DataView (executions (executionMonitor w)))"

text \<open>The page before any effect has run, at time \<open>t\<close>.\<close>

definition world_init :: "int \<Rightarrow> bool \<Rightarrow> string option \<Rightarrow> string option \<Rightarrow> world" where
  "world_init t auth entityId entityType =
     \<lparr>now = t, isAuthenticated = auth, selectedEntityId = entityId,
      selectedEntityType = entityType,
      integrationStatus = IntegrationStatus_init,
      executionMonitor = ExecutionMonitor_init,
      workflowPanel = WorkflowStatusPanel_init,
      calls = []\<rparr>"

text \<open>
  Everything that can happen on the page, and a run of such events. An event carries what
  the surroundings contribute to it: the outcome of the awaited calls and, for
  \<open>executeWorkflow\<close>, the runtime's \<open>toLowerCase\<close>. The events of the status widget do
  nothing once the widget has been removed from the page; what else the host removes
  together with it is not decided by this source, and the other components go on.
\<close>

datatype event =
    Elapse int
  | HealthMount
  | HealthTick
  | RefreshButton
  | HealthSettle "js_error + health_answer"
  | FeedMount
  | FeedTick
  | SetFilter string
  | ToggleExpanded
  | ToggleAutoRefresh
  | FeedSettle nat "js_error + N8nExecution list"
  | ExecuteWorkflowClick "string \<Rightarrow> string" string "js_error + N8nExecution"
      "js_error + N8nWorkflow list option"
  | AnalysisClick "js_error + string"
  | PredictionClick "js_error + string"

definition on_page :: "(world \<Rightarrow> world) \<Rightarrow> world \<Rightarrow> world" where
  "on_page f w = (if is_crashed (integrationStatus w) then w else f w)"

fun step :: "world \<Rightarrow> event \<Rightarrow> world" where
  "step w (Elapse d) = elapse d w"
| "step w HealthMount = on_page health_effect w"
| "step w HealthTick = on_page health_tick w"
| "step w RefreshButton = on_page refresh_button w"
| "step w (HealthSettle outcome) = on_page (checkHealth_settle outcome) w"
| "step w FeedMount = feed_effect w"
| "step w FeedTick = feed_tick w"
| "step w (SetFilter v) = setFilter v w"
| "step w ToggleExpanded = toggleExpanded w"
| "step w ToggleAutoRefresh = toggleAutoRefresh w"
| "step w (FeedSettle k outcome) = fetchExecutions_settle k outcome w"
| "step w (ExecuteWorkflowClick toLowerCase wid o1 o2) = fst (executeWorkflow toLowerCase wid o1 o2 w)"
| "step w (AnalysisClick outcome) = fst (requestAnalysis_onClick outcome w)"
| "step w (PredictionClick outcome) = fst (requestPrediction_onClick outcome w)"

definition run :: "world \<Rightarrow> event list \<Rightarrow> world" where
  "run w evs = foldl step w evs"

section \<open>Observations and scenarios\<close>









text \<open>Both periodic components have mounted at time 0; the same page 5 and 60 seconds later.\<close>

definition both_mounted :: world where
  "both_mounted = run (world_init 0 True None None) [HealthMount, FeedMount]"

definition five_seconds_later :: world where
  "five_seconds_later = run both_mounted [Elapse 5000]"

definition a_minute_later :: world where
  "a_minute_later = run both_mounted [Elapse 60000]"

text \<open>
  A lowering function for the sample pages, whose names are ASCII: on ASCII text it is
  what \<open>toLowerCase\<close> computes.
\<close>

definition ascii_lower :: "string \<Rightarrow> string" where
  "ascii_lower s =
     map (\<lambda>c. let n = (of_char c :: nat) in if 65 \<le> n \<and> n \<le> 90 then char_of (n + 32) else c) s"

text \<open>
  The monitor mounts (a fetch under \<open>all\<close> starts), the filter is changed to \<open>error\<close>
  (a second fetch starts), the answer to the second fetch arrives, and then the answer to
  the first.
\<close>

definition latest_answer_run :: world where
  "latest_answer_run =
     run (world_init 1000000 True None None)
       [FeedMount, SetFilter ''error'', FeedSettle 1 (Inr [])]"

definition stale_answer_run :: world where
  "stale_answer_run = run latest_answer_run [FeedSettle 0 (Inr [])]"

text \<open>A page with a selected parcel, and an execution the backend acknowledges with.\<close>

definition parcel_page :: world where
  "parcel_page = world_init 0 True (Some ''parcel-1'') (Some ''AgriParcel'')"

definition started_execution :: N8nExecution where
  "started_execution =
     \<lparr>x_id = ''77'', x_workflowId = ''wf-1'', x_finished = False, x_mode = ''manual'',
      x_startedAt = 0, x_stoppedAt = None, x_status = Running\<rparr>"

text \<open>
  The status widget mounts at time 0, its first poll is answered, and 59999 ms after the
  mount the refresh button is pressed.
\<close>

definition manual_refresh_run :: world where
  "manual_refresh_run =
     run (world_init 0 True None None)
       [HealthMount, HealthSettle (Inr (Entries [])), Elapse 59999, RefreshButton]"

text \<open>A periodic fetch that is rejected with an error whose message is empty.\<close>

definition empty_message_failure_run :: world where
  "empty_message_failure_run =
     run (world_init 0 True None None)
       [FeedMount, FeedSettle 0 (Inr []), Elapse 10000, FeedTick,
        FeedSettle 0 (Inl \<lparr>message = Some []\<rparr>)]"

text \<open>Two error records as the backend could return them for \<open>status=error\<close>.\<close>

definition two_error_records :: "N8nExecution list" where
  "two_error_records =
     [\<lparr>x_id = ''901'', x_workflowId = ''wf-7'', x_finished = True, x_mode = ''trigger'',
       x_startedAt = 9000, x_stoppedAt = Some 9500, x_status = Error\<rparr>,
      \<lparr>x_id = ''900'', x_workflowId = ''wf-7'', x_finished = True, x_mode = ''trigger'',
       x_startedAt = 8000, x_stoppedAt = Some 8200, x_status = Error\<rparr>]"

definition error_filter_run :: world where
  "error_filter_run =
     run (world_init 10000 True None None)
       [FeedMount, FeedSettle 0 (Inr []), SetFilter ''error'',
        FeedSettle 0 (Inr two_error_records)]"

text \<open>
  Two successful fetches under the same filter and the same \<open>expanded\<close> flag, the second
  one a period after the first.
\<close>

definition first_fetch_run :: world where
  "first_fetch_run = run (world_init 0 True None None) [FeedMount, FeedSettle 0 (Inr [])]"


text \<open>The monitor just after it has mounted, and the same a period after its first answer.\<close>

definition mounted_monitor :: world where
  "mounted_monitor = run (world_init 1000000 True None None) [FeedMount]"

definition pending_refetch :: world where
  "pending_refetch = run first_fetch_run [Elapse 10000, FeedTick]"

section \<open>Frame and evaluation lemmas\<close>

lemmas page_defs = run_def world_init_def IntegrationStatus_init_def ExecutionMonitor_init_def
  WorkflowStatusPanel_init_def integrations_init_def on_page_def

lemmas op_defs = elapse_def health_effect_def health_tick_def refresh_button_def
  refresh_onClick_def checkHealth_start_def checkHealth_settle_def feed_effect_def feed_tick_def
  setFilter_def toggleExpanded_def toggleAutoRefresh_def fetchExecutions_start_def
  fetchExecutions_settle_def HEALTH_INTERVAL_MS_def EXECUTIONS_INTERVAL_MS_def
  mockExecutions_def matches_filter_def or_default_def all_unknown_def merge_health_def
  success_updater_def

lemma merge_health_id [simp]: "i_id (merge_health health i) = i_id i"
  by (simp add: merge_health_def)








lemma all_unknown_ids [simp]: "map i_id (all_unknown prev) = map i_id prev"
  by (simp add: all_unknown_def)


lemma snapshot_checkHealth_start [simp]:
  "integrations (integrationStatus (checkHealth_start w)) = integrations (integrationStatus w)"
  by (simp add: checkHealth_start_def)




lemma clock_checkHealth_start [simp]: "now (checkHealth_start w) = now w"
  by (simp add: checkHealth_start_def)

lemma auth_checkHealth_start [simp]: "isAuthenticated (checkHealth_start w) = isAuthenticated w"
  by (simp add: checkHealth_start_def)

lemma monitor_of_checkHealth_start [simp]:
  "executionMonitor (checkHealth_start w) = executionMonitor w"
  by (simp add: checkHealth_start_def)

lemma clock_fetchExecutions_start [simp]: "now (fetchExecutions_start w) = now w"
  by (simp add: fetchExecutions_start_def Let_def)

lemma auth_fetchExecutions_start [simp]:
  "isAuthenticated (fetchExecutions_start w) = isAuthenticated w"
  by (simp add: fetchExecutions_start_def Let_def)

lemma health_of_fetchExecutions_start [simp]:
  "integrationStatus (fetchExecutions_start w) = integrationStatus w"
  by (simp add: fetchExecutions_start_def Let_def)

lemma health_of_fetchExecutions_settle [simp]:
  "integrationStatus (fetchExecutions_settle k outcome w) = integrationStatus w"
  by (cases outcome) (simp_all add: fetchExecutions_settle_def Let_def)

lemma health_of_feed_effect [simp]: "integrationStatus (feed_effect w) = integrationStatus w"
  by (simp add: feed_effect_def Let_def)

lemma health_of_feed_tick [simp]: "integrationStatus (feed_tick w) = integrationStatus w"
  by (simp add: feed_tick_def split: option.splits)

lemma health_of_setFilter [simp]: "integrationStatus (setFilter v w) = integrationStatus w"
  by (simp add: setFilter_def)

lemma health_of_toggleExpanded [simp]: "integrationStatus (toggleExpanded w) = integrationStatus w"
  by (simp add: toggleExpanded_def)

lemma health_of_toggleAutoRefresh [simp]:
  "integrationStatus (toggleAutoRefresh w) = integrationStatus w"
  by (simp add: toggleAutoRefresh_def)

lemma health_of_executeWorkflow [simp]:
  "integrationStatus (fst (executeWorkflow toLowerCase wid o1 o2 w)) = integrationStatus w"
  by (simp add: executeWorkflow_def Let_def split: option.splits sum.splits)

lemma health_of_requestAnalysis [simp]:
  "integrationStatus (fst (requestAnalysis_onClick outcome w)) = integrationStatus w"
  by (simp add: requestAnalysis_onClick_def split: option.splits)

lemma health_of_requestPrediction [simp]:
  "integrationStatus (fst (requestPrediction_onClick outcome w)) = integrationStatus w"
  by (simp add: requestPrediction_onClick_def split: option.splits)

lemma monitor_of_executeWorkflow [simp]:
  "executionMonitor (fst (executeWorkflow toLowerCase wid o1 o2 w)) = executionMonitor w"
  by (simp add: executeWorkflow_def Let_def split: option.splits sum.splits)

lemma monitor_of_requestAnalysis [simp]:
  "executionMonitor (fst (requestAnalysis_onClick outcome w)) = executionMonitor w"
  by (simp add: requestAnalysis_onClick_def split: option.splits)

lemma monitor_of_requestPrediction [simp]:
  "executionMonitor (fst (requestPrediction_onClick outcome w)) = executionMonitor w"
  by (simp add: requestPrediction_onClick_def split: option.splits)




text \<open>The health timer over \<open>n\<close> further periods after the effect has run.\<close>

lemma health_timer_periods:
  assumes "isAuthenticated w"
  shows "calls (((\<lambda>u. health_tick (elapse HEALTH_INTERVAL_MS u)) ^^ n) (health_effect w))
           = calls w @ replicate (Suc n) GetIntegrationsHealth
   \<and> now (((\<lambda>u. health_tick (elapse HEALTH_INTERVAL_MS u)) ^^ n) (health_effect w))
       = now w + int n * HEALTH_INTERVAL_MS
   \<and> is_interval (integrationStatus
        (((\<lambda>u. health_tick (elapse HEALTH_INTERVAL_MS u)) ^^ n) (health_effect w)))
       = Some \<lparr>period = HEALTH_INTERVAL_MS,
               next_due = now w + (int n + 1) * HEALTH_INTERVAL_MS\<rparr>
   \<and> isAuthenticated (((\<lambda>u. health_tick (elapse HEALTH_INTERVAL_MS u)) ^^ n) (health_effect w))"
proof (induction n)
  case 0
  from assms show ?case
    by (simp add: health_effect_def checkHealth_start_def Let_def)
next
  case (Suc n)
  then show ?case
    by (simp add: health_tick_def elapse_def checkHealth_start_def HEALTH_INTERVAL_MS_def
          algebra_simps replicate_append_same)
qed

text \<open>The executions timer over \<open>n\<close> further periods after the effect has run.\<close>

lemma feed_timer_periods:
  assumes "isAuthenticated w" and "em_autoRefresh (executionMonitor w)"
  shows "calls (((\<lambda>u. feed_tick (elapse EXECUTIONS_INTERVAL_MS u)) ^^ n) (feed_effect w))
           = calls w @ replicate (Suc n)
               (GetExecutions
                  (if em_filter (executionMonitor w) \<noteq> ''all''
                   then Some (em_filter (executionMonitor w)) else None)
                  (if em_expanded (executionMonitor w) then 50 else 10))
   \<and> now (((\<lambda>u. feed_tick (elapse EXECUTIONS_INTERVAL_MS u)) ^^ n) (feed_effect w))
       = now w + int n * EXECUTIONS_INTERVAL_MS
   \<and> em_interval (executionMonitor
        (((\<lambda>u. feed_tick (elapse EXECUTIONS_INTERVAL_MS u)) ^^ n) (feed_effect w)))
       = Some \<lparr>period = EXECUTIONS_INTERVAL_MS,
               next_due = now w + (int n + 1) * EXECUTIONS_INTERVAL_MS\<rparr>
   \<and> isAuthenticated (((\<lambda>u. feed_tick (elapse EXECUTIONS_INTERVAL_MS u)) ^^ n) (feed_effect w))
   \<and> em_filter (executionMonitor
        (((\<lambda>u. feed_tick (elapse EXECUTIONS_INTERVAL_MS u)) ^^ n) (feed_effect w)))
       = em_filter (executionMonitor w)
   \<and> em_expanded (executionMonitor
        (((\<lambda>u. feed_tick (elapse EXECUTIONS_INTERVAL_MS u)) ^^ n) (feed_effect w)))
       = em_expanded (executionMonitor w)"
proof (induction n)
  case 0
  from assms show ?case
    by (simp add: feed_effect_def fetchExecutions_start_def Let_def)
next
  case (Suc n)
  then show ?case
    by (simp add: feed_tick_def elapse_def fetchExecutions_start_def Let_def
          EXECUTIONS_INTERVAL_MS_def algebra_simps replicate_append_same)
qed

section \<open>The claims\<close>

subsection \<open>Health snapshot\<close>



subsection \<open>Failures during a poll\<close>




subsection \<open>Executions window\<close>

text \<open>
  C1, as the code has it. A change of the filter starts a new fetch at once and leaves the
  fetches already pending as they are. When the answer to any pending fetch arrives it is
  applied: the window becomes the records the code derives for the filter that this fetch
  was requested with, whatever the current filter is and whether or not a newer fetch has
  been requested, and the other pending fetches stay pending. The window therefore shows
  the answer that arrived last.
\<close>

theorem C1_every_arriving_answer_is_applied:
  "(isAuthenticated w \<and> v \<noteq> em_filter (executionMonitor w) \<longrightarrow>
      em_inflight (executionMonitor (setFilter v w))
        = em_inflight (executionMonitor w)
            @ [\<lparr>c_filter = v, c_expanded = em_expanded (executionMonitor w)\<rparr>])
   \<and> (k < length (em_inflight (executionMonitor w)) \<longrightarrow>
        executions (executionMonitor (fetchExecutions_settle k (Inr response) w))
          = filter (matches_filter (c_filter (em_inflight (executionMonitor w) ! k)))
                   (mockExecutions (now w))
        \<and> em_inflight (executionMonitor (fetchExecutions_settle k (Inr response) w))
          = take k (em_inflight (executionMonitor w))
              @ drop (Suc k) (em_inflight (executionMonitor w)))"
  by (simp add: setFilter_def feed_effect_def fetchExecutions_start_def
        fetchExecutions_settle_def Let_def)

text \<open>
  C1 at a concrete page: the monitor has mounted under \<open>all\<close>, the filter changes to
  \<open>error\<close>, and the answer to the fetch under \<open>all\<close> is applied when it arrives.
\<close>

theorem C1_every_arriving_answer_is_applied_witness:
  "isAuthenticated mounted_monitor
   \<and> ''error'' \<noteq> em_filter (executionMonitor mounted_monitor)
   \<and> 0 < length (em_inflight (executionMonitor (setFilter ''error'' mounted_monitor)))
   \<and> em_inflight (executionMonitor (setFilter ''error'' mounted_monitor))
       = [\<lparr>c_filter = ''all'', c_expanded = False\<rparr>, \<lparr>c_filter = ''error'', c_expanded = False\<rparr>]
   \<and> map e_id (executions (executionMonitor
         (fetchExecutions_settle 0 (Inr []) (setFilter ''error'' mounted_monitor))))
       = [''1'', ''2'', ''3'', ''4'', ''5'']"
proof -
  have auth: "isAuthenticated mounted_monitor"
    and changed: "''error'' \<noteq> em_filter (executionMonitor mounted_monitor)"
    and before: "em_inflight (executionMonitor mounted_monitor)
                   = [\<lparr>c_filter = ''all'', c_expanded = False\<rparr>]"
    and expanded: "\<not> em_expanded (executionMonitor mounted_monitor)"
    by (simp_all add: mounted_monitor_def page_defs op_defs Let_def)
  from auth changed
    C1_every_arriving_answer_is_applied [of mounted_monitor "''error''" 0 "[]"]
  have pending: "em_inflight (executionMonitor (setFilter ''error'' mounted_monitor))
       = [\<lparr>c_filter = ''all'', c_expanded = False\<rparr>, \<lparr>c_filter = ''error'', c_expanded = False\<rparr>]"
    by (simp add: before expanded)
  from C1_every_arriving_answer_is_applied
         [of "setFilter ''error'' mounted_monitor" "''error''" 0 "[]"] pending
  have "executions (executionMonitor
          (fetchExecutions_settle 0 (Inr []) (setFilter ''error'' mounted_monitor)))
        = filter (matches_filter ''all'') (mockExecutions (now (setFilter ''error'' mounted_monitor)))"
    by simp
  then have "map e_id (executions (executionMonitor
          (fetchExecutions_settle 0 (Inr []) (setFilter ''error'' mounted_monitor))))
       = [''1'', ''2'', ''3'', ''4'', ''5'']"
    by (simp add: mockExecutions_def matches_filter_def)
  with auth changed pending show ?thesis by simp
qed

text \<open>
  C1 as stated fails. The filter is changed from \<open>all\<close> to \<open>error\<close> while the fetch under
  \<open>all\<close> is pending. After the answer to the newer fetch the window holds the error record
  alone; the answer to the superseded fetch arrives afterwards and is applied: the filter is
  \<open>error\<close>, nothing is pending any more, and the window holds all five records.
\<close>

theorem C1_stale_answer_counterexample:
  "em_filter (executionMonitor latest_answer_run) = ''error''
   \<and> em_inflight (executionMonitor latest_answer_run) = [\<lparr>c_filter = ''all'', c_expanded = False\<rparr>]
   \<and> map e_id (executions (executionMonitor latest_answer_run)) = [''4'']
   \<and> em_filter (executionMonitor stale_answer_run) = ''error''
   \<and> em_inflight (executionMonitor stale_answer_run) = []
   \<and> map e_id (executions (executionMonitor stale_answer_run)) = [''1'', ''2'', ''3'', ''4'', ''5'']
   \<and> map e_status (executions (executionMonitor stale_answer_run))
       = [Success, Running, Success, Error, Success]"
  by (simp add: stale_answer_run_def latest_answer_run_def page_defs op_defs Let_def)

text \<open>
  C6, as the code has it. When a pending fetch is rejected, the window of records is left
  as it was, and the error state is set: to the message of the failure when that is a
  non-empty string, and to \<open>Failed to load executions\<close> when the failure has no message or
  an empty one.
\<close>

theorem C6_failed_fetch_keeps_window:
  assumes "k < length (em_inflight (executionMonitor w))"
  shows "executions (executionMonitor (fetchExecutions_settle k (Inl err) w))
           = executions (executionMonitor w)
   \<and> em_error (executionMonitor (fetchExecutions_settle k (Inl err) w))
       = Some (case message err of
                 None \<Rightarrow> ''Failed to load executions''
               | Some m \<Rightarrow> if m = [] then ''Failed to load executions'' else m)"
  using assms by (simp add: fetchExecutions_settle_def Let_def or_default_def)

text \<open>
  C6 at a concrete page: five records are shown, the periodic fetch is pending and is
  rejected with the message \<open>timeout\<close>.
\<close>

theorem C6_failed_fetch_keeps_window_witness:
  "0 < length (em_inflight (executionMonitor pending_refetch))
   \<and> map e_id (executions (executionMonitor
        (fetchExecutions_settle 0 (Inl \<lparr>message = Some ''timeout''\<rparr>) pending_refetch)))
       = [''1'', ''2'', ''3'', ''4'', ''5'']
   \<and> em_error (executionMonitor
        (fetchExecutions_settle 0 (Inl \<lparr>message = Some ''timeout''\<rparr>) pending_refetch))
       = Some ''timeout''"
proof -
  have pending: "0 < length (em_inflight (executionMonitor pending_refetch))"
    by (simp add: pending_refetch_def first_fetch_run_def page_defs op_defs Let_def)
  have shown: "map e_id (executions (executionMonitor pending_refetch))
                 = [''1'', ''2'', ''3'', ''4'', ''5'']"
    by (simp add: pending_refetch_def first_fetch_run_def page_defs op_defs Let_def)
  from pending shown
    C6_failed_fetch_keeps_window [OF pending, of "\<lparr>message = Some ''timeout''\<rparr>"]
  show ?thesis by simp
qed

text \<open>
  C6 as stated fails where the failure's message is the empty string: the error state is
  not that message but the fallback text.
\<close>

theorem C6_empty_message_counterexample:
  "em_error (executionMonitor empty_message_failure_run) = Some ''Failed to load executions''
   \<and> em_error (executionMonitor empty_message_failure_run) \<noteq> message \<lparr>message = Some []\<rparr>"
  by (simp add: empty_message_failure_run_def page_defs op_defs Let_def)

text \<open>
  C7 on the code. The filter is \<open>error\<close>, the limit 10, and the backend answers with two
  error records, 901 and 900. The window shows neither: it holds the mock record 4. Under
  \<open>all\<close> the window is not ordered newest-first either: its second record started after
  its first.
\<close>

theorem C7_answer_is_not_shown:
  "calls error_filter_run = [GetExecutions None 10, GetExecutions (Some ''error'') 10]
   \<and> map x_id two_error_records = [''901'', ''900'']
   \<and> map e_id (executions (executionMonitor error_filter_run)) = [''4'']
   \<and> map e_startedAt (executions (executionMonitor first_fetch_run))
       = [- 300000, - 120000, - 900000, - 1800000, - 3600000]"
  by (simp add: error_filter_run_def two_error_records_def first_fetch_run_def
        page_defs op_defs Let_def)


subsection \<open>Actions\<close>

text \<open>
  C4, as the code has it, for a page with a selected entity. \<open>executeWorkflow\<close>: when the
  backend accepts the execution, the panel issues \<open>getWorkflows\<close> next and, when that is
  answered, stores the summaries of the listed workflows and clears \<open>loading\<close>; when the
  backend rejects the execution, the panel issues nothing further, keeps its workflows, and
  sets its own error state to the failure's message (or \<open>Failed to execute workflow\<close>). In
  both cases the caller gets nothing back: the promise resolves with \<open>undefined\<close>. The two
  quick actions issue their single call, hand its acknowledgment or its failure back, and
  change no state. None of the three actions issues \<open>getExecutions\<close> or touches the health
  snapshot or the executions window.
\<close>

theorem C4_actions_leave_feed_alone:
  assumes "entity_selected w = Some entityId"
  shows
    "executeWorkflow toLowerCase wid (Inr execution) (Inr response) w
       = (w\<lparr>workflowPanel := (workflowPanel w)\<lparr>
               workflows := (case response of None \<Rightarrow> []
                             | Some ws \<Rightarrow> map (summarize toLowerCase (selectedEntityType w)) ws),
               wp_loading := False\<rparr>,
             calls := calls w @ [ExecuteWorkflow wid entityId (selectedEntityType w),
                                 GetWorkflows]\<rparr>,
          Resolved None)
     \<and> executeWorkflow toLowerCase wid (Inl err) list_outcome w
       = (w\<lparr>workflowPanel := (workflowPanel w)\<lparr>
               wp_error := Some (or_default (message err) ''Failed to execute workflow'')\<rparr>,
             calls := calls w @ [ExecuteWorkflow wid entityId (selectedEntityType w)]\<rparr>,
          Resolved None)
     \<and> requestAnalysis_onClick (Inr jobId) w
       = (w\<lparr>calls := calls w @
               [RequestAnalysis entityId (now w - 2592000000) (now w) [''NDVI'']]\<rparr>,
          Resolved (Some (JobAck jobId)))
     \<and> requestAnalysis_onClick (Inl err) w
       = (w\<lparr>calls := calls w @
               [RequestAnalysis entityId (now w - 2592000000) (now w) [''NDVI'']]\<rparr>,
          Rejected err)
     \<and> requestPrediction_onClick (Inr jobId) w
       = (w\<lparr>calls := calls w @
               [RequestPrediction ''production'' entityId (selectedEntityType w)]\<rparr>,
          Resolved (Some (JobAck jobId)))
     \<and> requestPrediction_onClick (Inl err) w
       = (w\<lparr>calls := calls w @
               [RequestPrediction ''production'' entityId (selectedEntityType w)]\<rparr>,
          Rejected err)
     \<and> integrationStatus (fst (executeWorkflow toLowerCase wid exec_outcome list_outcome w))
         = integrationStatus w
     \<and> executionMonitor (fst (executeWorkflow toLowerCase wid exec_outcome list_outcome w))
         = executionMonitor w
     \<and> integrationStatus (fst (requestAnalysis_onClick outcome w)) = integrationStatus w
     \<and> executionMonitor (fst (requestAnalysis_onClick outcome w)) = executionMonitor w
     \<and> integrationStatus (fst (requestPrediction_onClick outcome w)) = integrationStatus w
     \<and> executionMonitor (fst (requestPrediction_onClick outcome w)) = executionMonitor w"
proof -
  from assms have run_ok: "executeWorkflow toLowerCase wid (Inr execution) (Inr response) w
       = (w\<lparr>workflowPanel := (workflowPanel w)\<lparr>
               workflows := (case response of None \<Rightarrow> []
                             | Some ws \<Rightarrow> map (summarize toLowerCase (selectedEntityType w)) ws),
               wp_loading := False\<rparr>,
             calls := calls w @ [ExecuteWorkflow wid entityId (selectedEntityType w),
                                 GetWorkflows]\<rparr>,
          Resolved None)"
    by (simp add: executeWorkflow_def Let_def)
  from assms have run_failed: "executeWorkflow toLowerCase wid (Inl err) list_outcome w
       = (w\<lparr>workflowPanel := (workflowPanel w)\<lparr>
               wp_error := Some (or_default (message err) ''Failed to execute workflow'')\<rparr>,
             calls := calls w @ [ExecuteWorkflow wid entityId (selectedEntityType w)]\<rparr>,
          Resolved None)"
    by (simp add: executeWorkflow_def Let_def)
  from assms have quick:
    "requestAnalysis_onClick (Inr jobId) w
       = (w\<lparr>calls := calls w @
               [RequestAnalysis entityId (now w - 2592000000) (now w) [''NDVI'']]\<rparr>,
          Resolved (Some (JobAck jobId)))"
    "requestAnalysis_onClick (Inl err) w
       = (w\<lparr>calls := calls w @
               [RequestAnalysis entityId (now w - 2592000000) (now w) [''NDVI'']]\<rparr>,
          Rejected err)"
    "requestPrediction_onClick (Inr jobId) w
       = (w\<lparr>calls := calls w @
               [RequestPrediction ''production'' entityId (selectedEntityType w)]\<rparr>,
          Resolved (Some (JobAck jobId)))"
    "requestPrediction_onClick (Inl err) w
       = (w\<lparr>calls := calls w @
               [RequestPrediction ''production'' entityId (selectedEntityType w)]\<rparr>,
          Rejected err)"
    by (simp_all add: requestAnalysis_onClick_def requestPrediction_onClick_def)
  from run_ok run_failed quick show ?thesis
    by (simp only: health_of_executeWorkflow monitor_of_executeWorkflow
          health_of_requestAnalysis monitor_of_requestAnalysis
          health_of_requestPrediction monitor_of_requestPrediction simp_thms)
qed

text \<open>
  C4 at a concrete page: the parcel \<open>parcel-1\<close> is selected, and the workflow \<open>wf-1\<close> is
  executed with success, then with a failure.
\<close>

theorem C4_actions_leave_feed_alone_witness:
  "entity_selected parcel_page = Some ''parcel-1''
   \<and> calls (fst (executeWorkflow ascii_lower ''wf-1'' (Inr started_execution)
                   (Inr (Some [\<lparr>w_id = ''wf-1'', w_name = ''AgriParcel NDVI'', w_active = True\<rparr>]))
                   parcel_page))
       = [ExecuteWorkflow ''wf-1'' ''parcel-1'' (Some ''AgriParcel''), GetWorkflows]
   \<and> workflows (workflowPanel (fst (executeWorkflow ascii_lower ''wf-1'' (Inr started_execution)
                   (Inr (Some [\<lparr>w_id = ''wf-1'', w_name = ''AgriParcel NDVI'', w_active = True\<rparr>]))
                   parcel_page)))
       = [\<lparr>s_id = ''wf-1'', s_name = ''AgriParcel NDVI'', s_active = True,
           s_relatedToEntity = True\<rparr>]
   \<and> calls (fst (executeWorkflow ascii_lower ''wf-1'' (Inl \<lparr>message = Some ''HTTP 500''\<rparr>) (Inr None)
                   parcel_page))
       = [ExecuteWorkflow ''wf-1'' ''parcel-1'' (Some ''AgriParcel'')]
   \<and> wp_error (workflowPanel (fst (executeWorkflow ascii_lower ''wf-1'' (Inl \<lparr>message = Some ''HTTP 500''\<rparr>)
                   (Inr None) parcel_page)))
       = Some ''HTTP 500''"
proof -
  have sel: "entity_selected parcel_page = Some ''parcel-1''"
    by (simp add: entity_selected_def parcel_page_def world_init_def)
  have ty: "selectedEntityType parcel_page = Some ''AgriParcel''" and "calls parcel_page = []"
    by (simp_all add: parcel_page_def world_init_def)
  moreover have "summarize ascii_lower (Some ''AgriParcel'')
                   \<lparr>w_id = ''wf-1'', w_name = ''AgriParcel NDVI'', w_active = True\<rparr>
       = \<lparr>s_id = ''wf-1'', s_name = ''AgriParcel NDVI'', s_active = True,
          s_relatedToEntity = True\<rparr>"
    by code_simp
  moreover note sel
    C4_actions_leave_feed_alone [OF sel, of ascii_lower "''wf-1''" started_execution
      "Some [\<lparr>w_id = ''wf-1'', w_name = ''AgriParcel NDVI'', w_active = True\<rparr>]"
      "\<lparr>message = Some ''HTTP 500''\<rparr>" "Inr None"]
  ultimately show ?thesis
    by (simp add: or_default_def)
qed

text \<open>
  C4 as stated fails. The workflow \<open>wf-1\<close> is executed for the selected parcel and the
  backend accepts it. The calls issued are the execution and a listing of the workflows:
  executions are not fetched, nothing becomes pending in the monitor, and what the caller
  gets back is not the acknowledgment.
\<close>

theorem C4_no_feed_refresh_counterexample:
  "calls (fst (executeWorkflow ascii_lower ''wf-1'' (Inr started_execution) (Inr (Some [])) parcel_page))
     = [ExecuteWorkflow ''wf-1'' ''parcel-1'' (Some ''AgriParcel''), GetWorkflows]
   \<and> em_inflight (executionMonitor
        (fst (executeWorkflow ascii_lower ''wf-1'' (Inr started_execution) (Inr (Some [])) parcel_page))) = []
   \<and> snd (executeWorkflow ascii_lower ''wf-1'' (Inr started_execution) (Inr (Some [])) parcel_page)
       = Resolved None
   \<and> snd (executeWorkflow ascii_lower ''wf-1'' (Inr started_execution) (Inr (Some [])) parcel_page)
       \<noteq> Resolved (Some (ExecutionAck started_execution))"
  by (simp add: executeWorkflow_def entity_selected_def parcel_page_def Let_def page_defs)

subsection \<open>Schedules\<close>

text \<open>
  C5, as the code has it. The refresh button, when it is enabled (authenticated, no poll
  loading), runs the same \<open>checkHealth\<close> as the timer, at once: it issues the health call.
  It never touches the schedule: the interval and the time at which it is next due are the
  same after the click as before it.
\<close>

theorem C5_manual_refresh_keeps_schedule:
  "is_interval (integrationStatus (refresh_button w)) = is_interval (integrationStatus w)
   \<and> now (refresh_button w) = now w
   \<and> (isAuthenticated w \<and> \<not> is_loading (integrationStatus w) \<longrightarrow>
        refresh_button w = checkHealth_start w
        \<and> calls (refresh_button w) = calls w @ [GetIntegrationsHealth])"
  by (simp add: refresh_button_def refresh_onClick_def checkHealth_start_def)

text \<open>
  C5 at a concrete page: the widget mounted at time 0 and its first poll was answered.
\<close>

theorem C5_manual_refresh_keeps_schedule_witness:
  "isAuthenticated (run (world_init 0 True None None) [HealthMount, HealthSettle (Inr (Entries []))])
   \<and> \<not> is_loading (integrationStatus
          (run (world_init 0 True None None) [HealthMount, HealthSettle (Inr (Entries []))]))
   \<and> calls (refresh_button
          (run (world_init 0 True None None) [HealthMount, HealthSettle (Inr (Entries []))]))
       = [GetIntegrationsHealth, GetIntegrationsHealth]
   \<and> is_interval (integrationStatus (refresh_button
          (run (world_init 0 True None None) [HealthMount, HealthSettle (Inr (Entries []))])))
       = Some \<lparr>period = 60000, next_due = 60000\<rparr>"
proof -
  have auth: "isAuthenticated (run (world_init 0 True None None) [HealthMount, HealthSettle (Inr (Entries []))])"
    and idle: "\<not> is_loading (integrationStatus
          (run (world_init 0 True None None) [HealthMount, HealthSettle (Inr (Entries []))]))"
    and issued: "calls (run (world_init 0 True None None) [HealthMount, HealthSettle (Inr (Entries []))])
                   = [GetIntegrationsHealth]"
    and timer: "is_interval (integrationStatus
          (run (world_init 0 True None None) [HealthMount, HealthSettle (Inr (Entries []))]))
       = Some \<lparr>period = 60000, next_due = 60000\<rparr>"
    by (simp_all add: page_defs op_defs Let_def)
  from auth idle issued timer
    C5_manual_refresh_keeps_schedule
      [of "run (world_init 0 True None None) [HealthMount, HealthSettle (Inr (Entries []))]"]
  show ?thesis by (simp add: checkHealth_start_def)
qed

text \<open>
  C5 as stated fails. The widget mounts at time 0 and the refresh button is pressed at
  59999: the poll is issued, the interval stays due at 60000, and one millisecond after
  the manual refresh the automatic tick fires and issues a third poll.
\<close>

theorem C5_double_fire_counterexample:
  "now manual_refresh_run = 59999
   \<and> calls manual_refresh_run = [GetIntegrationsHealth, GetIntegrationsHealth]
   \<and> is_interval (integrationStatus manual_refresh_run)
       = Some \<lparr>period = 60000, next_due = 60000\<rparr>
   \<and> now (run manual_refresh_run [Elapse 1, HealthTick]) = 60000
   \<and> calls (run manual_refresh_run [Elapse 1, HealthTick])
       = [GetIntegrationsHealth, GetIntegrationsHealth, GetIntegrationsHealth]"
  by (simp add: manual_refresh_run_def page_defs op_defs Let_def)

text \<open>
  C8. The health timer has a period of 60 seconds and the executions timer one of 10
  seconds: each effect creates its timer first due one period after it ran; a tick before
  the timer is due does nothing; a tick of a due timer issues the poll and makes the timer
  due one period later; so over \<open>n\<close> further periods after the effect the component has
  polled \<open>n + 1\<close> times, once per period. Toggling \<open>autoRefresh\<close> clears the monitor's
  timer when it was on, after which its tick never polls, and creates it anew when it was
  off. The toggle leaves the clock and the whole state of the status widget, its timer
  included, as they were: a health tick after the toggle changes the status widget and
  issues calls exactly as it would have done without the toggle.
\<close>

theorem C8_default_intervals_and_independent_toggle:
  "HEALTH_INTERVAL_MS = 60 * 1000
   \<and> EXECUTIONS_INTERVAL_MS = 10 * 1000
   \<and> is_interval (integrationStatus (health_effect w))
       = Some \<lparr>period = 60 * 1000, next_due = now w + 60 * 1000\<rparr>
   \<and> em_interval (executionMonitor (feed_effect w))
       = (if em_autoRefresh (executionMonitor w)
          then Some \<lparr>period = 10 * 1000, next_due = now w + 10 * 1000\<rparr> else None)
   \<and> (is_interval (integrationStatus w) = Some tm \<and> now w < next_due tm \<longrightarrow>
        health_tick w = w)
   \<and> (isAuthenticated w \<and> is_interval (integrationStatus w) = Some tm
        \<and> next_due tm \<le> now w \<longrightarrow>
        calls (health_tick w) = calls w @ [GetIntegrationsHealth]
        \<and> is_interval (integrationStatus (health_tick w))
            = Some \<lparr>period = period tm, next_due = next_due tm + period tm\<rparr>)
   \<and> (isAuthenticated w \<longrightarrow>
        calls (((\<lambda>u. health_tick (elapse HEALTH_INTERVAL_MS u)) ^^ n) (health_effect w))
          = calls w @ replicate (Suc n) GetIntegrationsHealth
        \<and> now (((\<lambda>u. health_tick (elapse HEALTH_INTERVAL_MS u)) ^^ n) (health_effect w))
          = now w + int n * HEALTH_INTERVAL_MS)
   \<and> (em_interval (executionMonitor w) = None \<longrightarrow> feed_tick w = w)
   \<and> (em_interval (executionMonitor w) = Some fm \<and> now w < next_due fm \<longrightarrow>
        feed_tick w = w)
   \<and> (isAuthenticated w \<and> em_interval (executionMonitor w) = Some fm
        \<and> next_due fm \<le> now w \<longrightarrow>
        calls (feed_tick w)
          = calls w @ [GetExecutions
                         (if em_filter (executionMonitor w) \<noteq> ''all''
                          then Some (em_filter (executionMonitor w)) else None)
                         (if em_expanded (executionMonitor w) then 50 else 10)]
        \<and> em_interval (executionMonitor (feed_tick w))
            = Some \<lparr>period = period fm, next_due = next_due fm + period fm\<rparr>)
   \<and> (isAuthenticated w \<and> em_autoRefresh (executionMonitor w) \<longrightarrow>
        calls (((\<lambda>u. feed_tick (elapse EXECUTIONS_INTERVAL_MS u)) ^^ n) (feed_effect w))
          = calls w @ replicate (Suc n)
              (GetExecutions
                 (if em_filter (executionMonitor w) \<noteq> ''all''
                  then Some (em_filter (executionMonitor w)) else None)
                 (if em_expanded (executionMonitor w) then 50 else 10))
        \<and> now (((\<lambda>u. feed_tick (elapse EXECUTIONS_INTERVAL_MS u)) ^^ n) (feed_effect w))
          = now w + int n * EXECUTIONS_INTERVAL_MS)
   \<and> em_interval (executionMonitor (toggleAutoRefresh w))
       = (if em_autoRefresh (executionMonitor w) then None
          else Some \<lparr>period = 10 * 1000, next_due = now w + 10 * 1000\<rparr>)
   \<and> (em_autoRefresh (executionMonitor w) \<longrightarrow>
        feed_tick (toggleAutoRefresh w) = toggleAutoRefresh w)
   \<and> integrationStatus (toggleAutoRefresh w) = integrationStatus w
   \<and> now (toggleAutoRefresh w) = now w
   \<and> integrationStatus (health_tick (toggleAutoRefresh w)) = integrationStatus (health_tick w)
   \<and> calls (health_tick (toggleAutoRefresh w))
       = calls (toggleAutoRefresh w) @ drop (length (calls w)) (calls (health_tick w))"
proof -
  have periods: "HEALTH_INTERVAL_MS = 60 * 1000" "EXECUTIONS_INTERVAL_MS = 10 * 1000"
    by (simp_all add: HEALTH_INTERVAL_MS_def EXECUTIONS_INTERVAL_MS_def)
  have health_timer: "is_interval (integrationStatus (health_effect w))
       = Some \<lparr>period = 60 * 1000, next_due = now w + 60 * 1000\<rparr>"
    by (simp add: health_effect_def Let_def HEALTH_INTERVAL_MS_def)
  have feed_timer: "em_interval (executionMonitor (feed_effect w))
       = (if em_autoRefresh (executionMonitor w)
          then Some \<lparr>period = 10 * 1000, next_due = now w + 10 * 1000\<rparr> else None)"
    by (simp add: feed_effect_def fetchExecutions_start_def Let_def EXECUTIONS_INTERVAL_MS_def)
  have health_early: "is_interval (integrationStatus w) = Some tm \<and> now w < next_due tm \<longrightarrow>
        health_tick w = w"
    by (simp add: health_tick_def)
  have health_due: "isAuthenticated w \<and> is_interval (integrationStatus w) = Some tm
        \<and> next_due tm \<le> now w \<longrightarrow>
        calls (health_tick w) = calls w @ [GetIntegrationsHealth]
        \<and> is_interval (integrationStatus (health_tick w))
            = Some \<lparr>period = period tm, next_due = next_due tm + period tm\<rparr>"
    by (simp add: health_tick_def checkHealth_start_def)
  have health_periods: "isAuthenticated w \<longrightarrow>
        calls (((\<lambda>u. health_tick (elapse HEALTH_INTERVAL_MS u)) ^^ n) (health_effect w))
          = calls w @ replicate (Suc n) GetIntegrationsHealth
        \<and> now (((\<lambda>u. health_tick (elapse HEALTH_INTERVAL_MS u)) ^^ n) (health_effect w))
          = now w + int n * HEALTH_INTERVAL_MS"
    using health_timer_periods [of w n] by blast
  have feed_stopped: "em_interval (executionMonitor w) = None \<longrightarrow> feed_tick w = w"
    by (simp add: feed_tick_def)
  have feed_early: "em_interval (executionMonitor w) = Some fm \<and> now w < next_due fm \<longrightarrow>
        feed_tick w = w"
    by (simp add: feed_tick_def)
  have feed_due: "isAuthenticated w \<and> em_interval (executionMonitor w) = Some fm
        \<and> next_due fm \<le> now w \<longrightarrow>
        calls (feed_tick w)
          = calls w @ [GetExecutions
                         (if em_filter (executionMonitor w) \<noteq> ''all''
                          then Some (em_filter (executionMonitor w)) else None)
                         (if em_expanded (executionMonitor w) then 50 else 10)]
        \<and> em_interval (executionMonitor (feed_tick w))
            = Some \<lparr>period = period fm, next_due = next_due fm + period fm\<rparr>"
    by (simp add: feed_tick_def fetchExecutions_start_def Let_def)
  have feed_periods: "isAuthenticated w \<and> em_autoRefresh (executionMonitor w) \<longrightarrow>
        calls (((\<lambda>u. feed_tick (elapse EXECUTIONS_INTERVAL_MS u)) ^^ n) (feed_effect w))
          = calls w @ replicate (Suc n)
              (GetExecutions
                 (if em_filter (executionMonitor w) \<noteq> ''all''
                  then Some (em_filter (executionMonitor w)) else None)
                 (if em_expanded (executionMonitor w) then 50 else 10))
        \<and> now (((\<lambda>u. feed_tick (elapse EXECUTIONS_INTERVAL_MS u)) ^^ n) (feed_effect w))
          = now w + int n * EXECUTIONS_INTERVAL_MS"
    using feed_timer_periods [of w n] by blast
  have toggled: "em_interval (executionMonitor (toggleAutoRefresh w))
       = (if em_autoRefresh (executionMonitor w) then None
          else Some \<lparr>period = 10 * 1000, next_due = now w + 10 * 1000\<rparr>)"
    by (simp add: toggleAutoRefresh_def feed_effect_def fetchExecutions_start_def Let_def
          EXECUTIONS_INTERVAL_MS_def)
  have silent: "em_autoRefresh (executionMonitor w) \<longrightarrow>
        feed_tick (toggleAutoRefresh w) = toggleAutoRefresh w"
    by (simp add: toggled feed_tick_def)
  have frame: "integrationStatus (toggleAutoRefresh w) = integrationStatus w"
    by simp
  have clock: "now (toggleAutoRefresh w) = now w"
    and auth: "isAuthenticated (toggleAutoRefresh w) = isAuthenticated w"
    by (simp_all add: toggleAutoRefresh_def feed_effect_def Let_def)
  have tick: "integrationStatus (health_tick (toggleAutoRefresh w))
                = integrationStatus (health_tick w)"
    by (simp add: health_tick_def checkHealth_start_def frame clock auth split: option.splits)
  have tick_calls: "calls (health_tick (toggleAutoRefresh w))
       = calls (toggleAutoRefresh w) @ drop (length (calls w)) (calls (health_tick w))"
    by (simp add: health_tick_def checkHealth_start_def frame clock auth split: option.splits)
  from periods health_timer feed_timer health_early health_due health_periods feed_stopped
    feed_early feed_due feed_periods toggled silent frame clock tick tick_calls
  show ?thesis
    by (simp only: simp_thms)
qed

text \<open>
  C8 at concrete pages. Both components mounted at time 0. Five seconds later neither
  timer is due and a tick of either does nothing. A minute later both are due: the health
  tick issues the health call and is due again at 120 seconds, the executions tick issues
  the executions call and is due again at 20 seconds. After \<open>autoRefresh\<close> is switched off
  on the mounted page, the monitor has no timer and its tick does nothing.
\<close>

theorem C8_default_intervals_and_independent_toggle_witness:
  "isAuthenticated a_minute_later
   \<and> is_interval (integrationStatus a_minute_later) = Some \<lparr>period = 60000, next_due = 60000\<rparr>
   \<and> em_interval (executionMonitor a_minute_later) = Some \<lparr>period = 10000, next_due = 10000\<rparr>
   \<and> now a_minute_later = 60000
   \<and> calls (health_tick a_minute_later)
       = [GetIntegrationsHealth, GetExecutions None 10, GetIntegrationsHealth]
   \<and> is_interval (integrationStatus (health_tick a_minute_later))
       = Some \<lparr>period = 60000, next_due = 120000\<rparr>
   \<and> calls (feed_tick a_minute_later)
       = [GetIntegrationsHealth, GetExecutions None 10, GetExecutions None 10]
   \<and> em_interval (executionMonitor (feed_tick a_minute_later))
       = Some \<lparr>period = 10000, next_due = 20000\<rparr>
   \<and> is_interval (integrationStatus five_seconds_later)
       = Some \<lparr>period = 60000, next_due = 60000\<rparr>
   \<and> em_interval (executionMonitor five_seconds_later)
       = Some \<lparr>period = 10000, next_due = 10000\<rparr>
   \<and> now five_seconds_later = 5000
   \<and> health_tick five_seconds_later = five_seconds_later
   \<and> feed_tick five_seconds_later = five_seconds_later
   \<and> em_autoRefresh (executionMonitor both_mounted)
   \<and> em_interval (executionMonitor (toggleAutoRefresh both_mounted)) = None
   \<and> feed_tick (toggleAutoRefresh both_mounted) = toggleAutoRefresh both_mounted
   \<and> calls (((\<lambda>u. health_tick (elapse HEALTH_INTERVAL_MS u)) ^^ 3)
               (health_effect (world_init 0 True None None)))
       = [GetIntegrationsHealth, GetIntegrationsHealth, GetIntegrationsHealth,
          GetIntegrationsHealth]"
proof -
  have late: "isAuthenticated a_minute_later"
    "is_interval (integrationStatus a_minute_later) = Some \<lparr>period = 60000, next_due = 60000\<rparr>"
    "em_interval (executionMonitor a_minute_later) = Some \<lparr>period = 10000, next_due = 10000\<rparr>"
    "now a_minute_later = 60000"
    "calls a_minute_later = [GetIntegrationsHealth, GetExecutions None 10]"
    "em_filter (executionMonitor a_minute_later) = ''all''"
    "\<not> em_expanded (executionMonitor a_minute_later)"
    by (simp_all add: a_minute_later_def both_mounted_def page_defs op_defs Let_def)
  have early: "is_interval (integrationStatus five_seconds_later)
       = Some \<lparr>period = 60000, next_due = 60000\<rparr>"
    "em_interval (executionMonitor five_seconds_later)
       = Some \<lparr>period = 10000, next_due = 10000\<rparr>"
    "now five_seconds_later = 5000"
    by (simp_all add: five_seconds_later_def both_mounted_def page_defs op_defs Let_def)
  have on: "em_autoRefresh (executionMonitor both_mounted)"
    by (simp add: both_mounted_def page_defs op_defs Let_def)
  have start: "isAuthenticated (world_init 0 True None None)"
    "calls (world_init 0 True None None) = []"
    by (simp_all add: world_init_def)
  from late
    C8_default_intervals_and_independent_toggle
      [of a_minute_later "\<lparr>period = 60000, next_due = 60000\<rparr>" 0
          "\<lparr>period = 10000, next_due = 10000\<rparr>"]
  have fired: "calls (health_tick a_minute_later)
       = [GetIntegrationsHealth, GetExecutions None 10, GetIntegrationsHealth]"
    "is_interval (integrationStatus (health_tick a_minute_later))
       = Some \<lparr>period = 60000, next_due = 120000\<rparr>"
    "calls (feed_tick a_minute_later)
       = [GetIntegrationsHealth, GetExecutions None 10, GetExecutions None 10]"
    "em_interval (executionMonitor (feed_tick a_minute_later))
       = Some \<lparr>period = 10000, next_due = 20000\<rparr>"
    by simp_all
  from early
    C8_default_intervals_and_independent_toggle
      [of five_seconds_later "\<lparr>period = 60000, next_due = 60000\<rparr>" 0
          "\<lparr>period = 10000, next_due = 10000\<rparr>"]
  have quiet: "health_tick five_seconds_later = five_seconds_later"
    "feed_tick five_seconds_later = five_seconds_later"
    by simp_all
  from on
    C8_default_intervals_and_independent_toggle [of both_mounted _ 0]
  have stopped: "em_interval (executionMonitor (toggleAutoRefresh both_mounted)) = None"
    "feed_tick (toggleAutoRefresh both_mounted) = toggleAutoRefresh both_mounted"
    by simp_all
  from start
    C8_default_intervals_and_independent_toggle [of "world_init 0 True None None" _ 3]
  have thrice: "calls (((\<lambda>u. health_tick (elapse HEALTH_INTERVAL_MS u)) ^^ 3)
               (health_effect (world_init 0 True None None)))
       = [GetIntegrationsHealth, GetIntegrationsHealth, GetIntegrationsHealth,
          GetIntegrationsHealth]"
    by (simp add: numeral_3_eq_3)
  from late early on fired quiet stopped thrice show ?thesis
    by simp
qed

subsection \<open>Not authenticated\<close>

text \<open>
  C10. When the user is not authenticated, \<open>checkHealth\<close> and \<open>fetchExecutions\<close> return at
  once: the page after the call is the page before it, so no backend call has been issued
  and neither the health snapshot nor the executions window has changed. The same holds
  when they are called by the refresh handler or by a timer that is due. In that state the
  status widget renders nothing and the monitor renders the login notice: neither shows
  its data view.
\<close>

theorem C10_unauthenticated_is_no_op:
  assumes "\<not> isAuthenticated w"
  shows "checkHealth_start w = w
   \<and> fetchExecutions_start w = w
   \<and> refresh_onClick w = w
   \<and> calls (health_tick w) = calls w
   \<and> integrations (integrationStatus (health_tick w)) = integrations (integrationStatus w)
   \<and> calls (feed_tick w) = calls w
   \<and> executions (executionMonitor (feed_tick w)) = executions (executionMonitor w)
   \<and> render_IntegrationStatus w = RenderNull
   \<and> render_ExecutionMonitor w = LoginRequired"
  using assms
  by (simp add: checkHealth_start_def fetchExecutions_start_def refresh_onClick_def
        health_tick_def feed_tick_def render_IntegrationStatus_def render_ExecutionMonitor_def
        split: option.splits)

text \<open>
  C10 at a concrete page: nobody is logged in, and both components have mounted.
\<close>

theorem C10_unauthenticated_is_no_op_witness:
  "\<not> isAuthenticated (run (world_init 0 False None None) [HealthMount, FeedMount])
   \<and> calls (checkHealth_start (run (world_init 0 False None None) [HealthMount, FeedMount])) = []
   \<and> calls (fetchExecutions_start (run (world_init 0 False None None) [HealthMount, FeedMount])) = []
   \<and> render_IntegrationStatus (run (world_init 0 False None None) [HealthMount, FeedMount])
       = RenderNull
   \<and> render_ExecutionMonitor (run (world_init 0 False None None) [HealthMount, FeedMount])
       = LoginRequired"
proof -
  have anon: "\<not> isAuthenticated (run (world_init 0 False None None) [HealthMount, FeedMount])"
    and quiet: "calls (run (world_init 0 False None None) [HealthMount, FeedMount]) = []"
    by (simp_all add: page_defs op_defs Let_def)
  from anon quiet C10_unauthenticated_is_no_op [OF anon]
  show ?thesis by simp
qed

end
